theory Spec2Isabelle
  imports Complex_Main "HOL-Library.AList"
begin

section \<open>Data model\<close>

text \<open>
  The types follow \<^verbatim>\<open>src/util/InstallDriver.ts\<close> and \<^verbatim>\<open>src/eventHandlers.ts\<close>.
  A package reference is opaque to this code (the reference matcher lives in the host
  application), so it is the type parameter \<open>'r\<close>. An optional field of the source
  (\<^verbatim>\<open>x?.f\<close>, a value that may be \<^verbatim>\<open>undefined\<close>) is an \<open>option\<close>.
\<close>

datatype Step = Prepare | Changelog | Query | Start | Disclaimer | Installing
  | Recommendations | Review

text \<open>
  The value of \<^verbatim>\<open>installerChoices?.options ?? {}\<close>: the literal \<^verbatim>\<open>{}\<close> of the source or a
  recorded list of choices; \<^verbatim>\<open>_.isEqual\<close> is structural equality.
\<close>

datatype InstallerOptions = EmptyObject | OptionSteps "string list"

record 'r IModRule =
  rtype :: string
  reference :: 'r
  fileList :: "(string \<times> string) list option"
  installerChoices :: "InstallerOptions option"

text \<open>
  \<open>state\<close> is \<open>None\<close> for the \<^verbatim>\<open>null\<close> of the source. \<open>fileSize\<close>, \<open>modInstallerChoices\<close>
  and \<open>installedAsDependency\<close> are the attributes of those names.
\<close>

record 'r IMod =
  mod_id :: string
  state :: "string option"
  archiveId :: "string option"
  installationPath :: string
  fileSize :: "nat option"
  modInstallerChoices :: "InstallerOptions option"
  installedAsDependency :: "bool option"
  rules :: "'r IModRule list option"

text \<open>
  An entry of \<^verbatim>\<open>getModsEx\<close>: \<^verbatim>\<open>{ ...mod, collectionRule: rule }\<close>, where \<^verbatim>\<open>mod\<close> is
  \<^verbatim>\<open>undefined\<close> when no installed package matches the rule.
\<close>

record 'r IModEx =
  exMod :: "'r IMod option"
  collectionRule :: "'r IModRule"

record IProfile =
  prof_id :: string
  gameId :: string

record ICollection =
  col_id :: nat
  slug :: string
  col_name :: "string option"
  memberId :: "nat option"

record IRevision =
  rev_id :: nat
  revision :: nat
  downloadLink :: string
  gameVersions :: "string list option"
  rev_collection :: "ICollection option"

record Ids =
  collectionSlug_of :: "string option"
  revisionId_of :: "string option"
  revisionNumber_of :: "nat option"

text \<open>
  A download record: \<open>nexus_ids\<close> is \<^verbatim>\<open>modInfo?.nexus?.ids\<close>, \<open>modInfo_ids\<close> is
  \<^verbatim>\<open>modInfo?.ids\<close>, \<open>nexus_revisionInfo\<close> and \<open>nexus_collectionInfo\<close> are the metadata
  embedded under \<^verbatim>\<open>modInfo?.nexus\<close>.
\<close>

record IDownload =
  received :: "nat option"
  localPath :: "string option"
  nexus_ids :: "Ids option"
  modInfo_ids :: "Ids option"
  nexus_revisionInfo :: "IRevision option"
  nexus_collectionInfo :: "ICollection option"

record IEntry =
  filePath :: string
  isDirectory :: bool

text \<open>
  A JavaScript number as far as the progress computation needs it: a finite value, or
  the two results of a division by zero of non-negative operands. Finite values are
  reals: rounding is left out.
\<close>

datatype number = Finite real | Infinity | NaN

text \<open>
  What an external call can throw: the host's user-cancellation, its "already
  downloaded" failure (with the file name), a plain \<^verbatim>\<open>Error\<close> with its message, or the
  \<^verbatim>\<open>TypeError\<close> of a property read on \<^verbatim>\<open>undefined\<close>.
\<close>

datatype error = UserCanceled | AlreadyDownloaded string | Error string | TypeError string

datatype 'a outcome = Throws error | Returns 'a

text \<open>
  What the driver sends to its collaborators, in the order sent. Log lines are left
  out. \<open>BatchDispatchAugmentRules\<close> stands for the batch of \<^verbatim>\<open>addModRule\<close> actions of
  \<^verbatim>\<open>augmentRules\<close>; the rules in the batch are not modelled.
\<close>

datatype effect =
    SendWarning string "nat option"
  | SendActivity string string string number
  | DismissNotification string
  | EmitViewCollection string
  | EmitInstallDependencies string string "string list" bool
  | DispatchSetPendingVote "string option" "string option" "nat option"
  | DispatchSetModEnabled string string bool
  | BatchDispatchAugmentRules string string
  | ShowDialog string
  | WithSuppressedTests
  | OnStopCallback
  | UpdateCB nat

text \<open>
  The fields of the class \<^verbatim>\<open>InstallDriver\<close>. \<open>mUpdateHandlers\<close> holds the registered
  observers by number, \<open>mOnStop\<close> says whether a stop callback is registered, and
  \<open>effects\<close> is the trace of what has been sent so far.
\<close>

record 'r Driver =
  mProfile :: "IProfile option"
  mCollection :: "'r IMod option"
  mStep :: Step
  mUpdateHandlers :: "nat list"
  mInstalledMods :: "'r IMod list"
  mRequiredMods :: "'r IModRule list"
  mInstallingMod :: "string option"
  mInstallDone :: bool
  mCollectionInfo :: "ICollection option"
  mRevisionInfo :: "IRevision option"
  mTotalSize :: "nat option"
  mOnStop :: bool
  effects :: "effect list"

text \<open>
  The world outside the driver: the application state it reads, and the functions it
  calls that are not part of \<^verbatim>\<open>InstallDriver.ts\<close> (the host's reference matcher, the
  helpers of \<^verbatim>\<open>./util\<close>, \<^verbatim>\<open>../constants\<close>, the info cache, the file system walk, the
  dialog). \<open>dialogAction\<close> is the action the user picks in the version dialog.
\<close>

record 'r Env =
  mods_of :: "string \<Rightarrow> (string \<times> 'r IMod) list option"
  downloads :: "string \<Rightarrow> IDownload option"
  userId :: "nat option"
  findModByRef :: "'r \<Rightarrow> (string \<times> 'r IMod) list \<Rightarrow> 'r IMod option"
  modRuleId :: "'r IModRule \<Rightarrow> string"
  isRelevant :: "'r IModEx \<Rightarrow> bool"
  calculateCollectionSize :: "(string \<times> 'r IModEx) list \<Rightarrow> nat"
  getRevisionInfo :: "string \<Rightarrow> string option \<Rightarrow> nat option \<Rightarrow> IRevision option outcome"
  getCollectionInfo :: "string option \<Rightarrow> ICollection option"
  getInstalledVersion :: "string \<Rightarrow> string"
  dialogAction :: string
  hasWithSuppressedTests :: bool
  installPathForGame :: "string \<Rightarrow> string"
  path_join :: "string \<Rightarrow> string \<Rightarrow> string"
  path_relative :: "string \<Rightarrow> string \<Rightarrow> string"
  turbowalk :: "string \<Rightarrow> IEntry list"
  fileMD5Async :: "string \<Rightarrow> string"
  renderModName :: "'r IMod \<Rightarrow> string"
  INSTALLING_NOTIFICATION_ID :: string
  getUnfulfilledNotificationId :: "string \<Rightarrow> string"

section \<open>The installation driver\<close>

definition emit :: "effect \<Rightarrow> 'r Driver \<Rightarrow> 'r Driver" where
  "emit e d = d\<lparr>effects := effects d @ [e]\<rparr>"

text \<open>The operator \<^verbatim>\<open>a ?? b\<close>.\<close>

definition nullish :: "'a option \<Rightarrow> 'a option \<Rightarrow> 'a option" where
  "nullish a b = (case a of Some x \<Rightarrow> Some x | None \<Rightarrow> b)"

text \<open>The operator \<^verbatim>\<open>a || b\<close> on optional strings and numbers: the empty string and 0 are falsy.\<close>

definition or_string :: "string option \<Rightarrow> string option \<Rightarrow> string option" where
  "or_string a b = (case a of Some x \<Rightarrow> (if x = [] then b else Some x) | None \<Rightarrow> b)"

definition or_nat :: "nat option \<Rightarrow> nat option \<Rightarrow> nat option" where
  "or_nat a b = (case a of Some x \<Rightarrow> (if x = 0 then b else Some x) | None \<Rightarrow> b)"

text \<open>The getters \<^verbatim>\<open>collectionSlug\<close>, \<^verbatim>\<open>revisionId\<close>, \<^verbatim>\<open>revisionNumber\<close>, for the archive of the collection.\<close>

definition collectionSlug :: "'r Env \<Rightarrow> string \<Rightarrow> string option" where
  "collectionSlug env aid =
     (case downloads env aid of
        None \<Rightarrow> None
      | Some dl \<Rightarrow> or_string (Option.bind (nexus_ids dl) collectionSlug_of)
                             (Option.bind (modInfo_ids dl) collectionSlug_of))"

definition revisionId :: "'r Env \<Rightarrow> string \<Rightarrow> string option" where
  "revisionId env aid =
     (case downloads env aid of
        None \<Rightarrow> None
      | Some dl \<Rightarrow> or_string (Option.bind (nexus_ids dl) revisionId_of)
                             (Option.bind (modInfo_ids dl) revisionId_of))"

definition revisionNumber :: "'r Env \<Rightarrow> string \<Rightarrow> nat option" where
  "revisionNumber env aid =
     (case downloads env aid of
        None \<Rightarrow> None
      | Some dl \<Rightarrow> or_nat (Option.bind (nexus_ids dl) revisionNumber_of)
                          (Option.bind (modInfo_ids dl) revisionNumber_of))"

text \<open>\<^verbatim>\<open>triggerUpdate\<close>: every registered observer is called, in order.\<close>

definition triggerUpdate :: "'r Driver \<Rightarrow> 'r Driver" where
  "triggerUpdate d = d\<lparr>effects := effects d @ map UpdateCB (mUpdateHandlers d)\<rparr>"

definition onUpdate :: "nat \<Rightarrow> 'r Driver \<Rightarrow> 'r Driver" where
  "onUpdate cb d = d\<lparr>mUpdateHandlers := mUpdateHandlers d @ [cb]\<rparr>"

text \<open>
  \<^verbatim>\<open>initCollectionInfo\<close>. The info cache is a parameter (\<^verbatim>\<open>./InfoCache\<close> is not among the
  sources); its lookup \<open>getCollectionInfo\<close> is taken to return a value or
  \<^verbatim>\<open>undefined\<close> and not to throw, as the specification has it: a failed metadata fetch is
  logged and never aborts the session.
\<close>

definition initCollectionInfo :: "'r Env \<Rightarrow> 'r Driver \<Rightarrow> 'r Driver" where
  "initCollectionInfo env d =
     (case mCollection d of
        None \<Rightarrow> d
      | Some c \<Rightarrow>
          (case archiveId c of
             None \<Rightarrow> d
           | Some aid \<Rightarrow>
               d\<lparr>mCollectionInfo :=
                   nullish (Option.bind (downloads env aid) nexus_collectionInfo)
                     (nullish (getCollectionInfo env (collectionSlug env aid))
                              (Option.bind (mRevisionInfo d) rev_collection))\<rparr>))"

text \<open>\<^verbatim>\<open>onStop\<close> and \<^verbatim>\<open>cancel\<close>.\<close>

definition onStop :: "'r Env \<Rightarrow> 'r Driver \<Rightarrow> 'r Driver" where
  "onStop env d =
     (let d1 = (case mCollection d of
                  None \<Rightarrow> d
                | Some c \<Rightarrow> emit (DismissNotification (INSTALLING_NOTIFICATION_ID env @ mod_id c)) d);
          d2 = d1\<lparr>mCollection := None, mProfile := None, mInstalledMods := [], mStep := Prepare\<rparr>
      in if mOnStop d2 then (emit OnStopCallback d2)\<lparr>mOnStop := False\<rparr> else d2)"

definition cancel :: "'r Env \<Rightarrow> 'r Driver \<Rightarrow> 'r Driver" where
  "cancel env d = triggerUpdate (onStop env d)"

text \<open>\<^verbatim>\<open>canContinue\<close>.\<close>

definition canContinue :: "'r Driver \<Rightarrow> bool" where
  "canContinue d =
     (if mCollection d = None then False
      else if mStep d = Installing then mInstallDone d
      else if mStep d = Disclaimer then (length (mInstalledMods d) > 0) \<or> mInstallDone d
      else True)"

text \<open>
  \<^verbatim>\<open>getModsEx\<close>: the dictionary from rule id to the matching package with its rule, as an
  association list in insertion order; a later rule with the same id overwrites the
  entry in place.
\<close>

definition getModsEx ::
  "'r Env \<Rightarrow> 'r Driver \<Rightarrow> IProfile option \<Rightarrow> 'r IMod \<Rightarrow> (string \<times> 'r IModEx) list" where
  "getModsEx env d profile collection =
     (case (case profile of None \<Rightarrow> mProfile d | Some p \<Rightarrow> Some p) of
        None \<Rightarrow> []
      | Some p \<Rightarrow>
          (case mods_of env (gameId p) of
             None \<Rightarrow> []
           | Some mods \<Rightarrow>
               foldl (\<lambda>prev rule.
                        if rtype rule \<noteq> ''requires'' \<and> rtype rule \<noteq> ''recommends'' then prev
                        else AList.update (modRuleId env rule)
                               \<lparr>exMod = findModByRef env (reference rule) mods,
                                collectionRule = rule\<rparr> prev)
                     [] (case rules collection of None \<Rightarrow> [] | Some rs \<Rightarrow> rs)))"

section \<open>Progress\<close>

text \<open>
  Division, addition and multiplication of JavaScript numbers, for the operands the
  progress computation has: the dividend and the divisor are non-negative integers, so
  a division by zero gives \<^verbatim>\<open>NaN\<close> (0/0) or \<^verbatim>\<open>Infinity\<close> (x/0 with x > 0), and no negative
  infinity arises.
\<close>

definition js_div :: "nat \<Rightarrow> nat \<Rightarrow> number" where
  "js_div a b = (if b = 0 then (if a = 0 then NaN else Infinity) else Finite (real a / real b))"

fun js_add :: "number \<Rightarrow> number \<Rightarrow> number" where
  "js_add NaN y = NaN"
| "js_add x NaN = NaN"
| "js_add Infinity y = Infinity"
| "js_add x Infinity = Infinity"
| "js_add (Finite a) (Finite b) = Finite (a + b)"

fun js_times50 :: "number \<Rightarrow> number" where
  "js_times50 (Finite a) = Finite (a * 50)"
| "js_times50 Infinity = Infinity"
| "js_times50 NaN = NaN"

text \<open>The size one entry adds to \<^verbatim>\<open>downloadProgress\<close> (the body of the \<^verbatim>\<open>reduce\<close>).\<close>

definition entrySize :: "'r Env \<Rightarrow> 'r IModEx \<Rightarrow> nat" where
  "entrySize env m =
     (case exMod m of
        None \<Rightarrow> 0
      | Some md \<Rightarrow>
          if state md = Some ''downloading'' \<or> state md = None
          then (case Option.bind (archiveId md) (downloads env) of
                  None \<Rightarrow> 0
                | Some dl \<Rightarrow> (case received dl of None \<Rightarrow> 0 | Some n \<Rightarrow> n))
          else (case fileSize md of None \<Rightarrow> 0 | Some n \<Rightarrow> n))"

definition downloadProgress :: "'r Env \<Rightarrow> 'r IModEx list \<Rightarrow> nat" where
  "downloadProgress env ms = foldl (\<lambda>prev m. prev + entrySize env m) 0 ms"

definition installedMods :: "'r IModEx list \<Rightarrow> 'r IModEx list" where
  "installedMods ms =
     filter (\<lambda>m. case exMod m of None \<Rightarrow> False | Some md \<Rightarrow> state md = Some ''installed'') ms"

definition totalMods :: "'r Env \<Rightarrow> 'r IModEx list \<Rightarrow> 'r IModEx list" where
  "totalMods env ms = filter (isRelevant env) ms"

text \<open>
  The arithmetic of \<^verbatim>\<open>installProgress\<close>, from the download progress, the cached total
  size (\<^verbatim>\<open>undefined\<close> converts to \<^verbatim>\<open>NaN\<close>), and the two counts.
\<close>

definition progressOf :: "nat \<Rightarrow> nat option \<Rightarrow> nat \<Rightarrow> nat \<Rightarrow> number" where
  "progressOf dl totalSize ninstalled ntotal =
     (let dlPerc = (case totalSize of None \<Rightarrow> NaN | Some t \<Rightarrow> js_div dl t);
          instPerc = js_div ninstalled ntotal
      in js_times50 (js_add dlPerc instPerc))"

definition installProgress :: "'r Env \<Rightarrow> 'r Driver \<Rightarrow> IProfile option \<Rightarrow> 'r IMod \<Rightarrow> number" where
  "installProgress env d profile collection =
     (let ms = map snd (getModsEx env d profile collection)
      in progressOf (downloadProgress env ms) (mTotalSize d)
           (length (installedMods ms)) (length (totalMods env ms)))"

definition updateProgress ::
  "'r Env \<Rightarrow> IProfile option \<Rightarrow> 'r IMod option \<Rightarrow> 'r Driver \<Rightarrow> 'r Driver" where
  "updateProgress env profile collection d =
     (case collection of
        None \<Rightarrow> d
      | Some c \<Rightarrow>
          (let d1 = (if mTotalSize d = None
                     then d\<lparr>mTotalSize :=
                            Some (calculateCollectionSize env (getModsEx env d profile c))\<rparr>
                     else d)
           in emit (SendActivity (INSTALLING_NOTIFICATION_ID env @ mod_id c)
                      ''Installing Collection'' (renderModName env c)
                      (installProgress env d1 profile c)) d1))"

section \<open>Starting a session\<close>

text \<open>
  The files found under a package's install root, as \<^verbatim>\<open>startImpl\<close> collects them: the
  entries of the walk that are not directories, each with its path relative to the root
  and its hash. (The walk is taken to report at least once; the undefined first
  element of \<^verbatim>\<open>entries\<close> is dropped by the filter.)
\<close>

definition presentFiles :: "'r Env \<Rightarrow> string \<Rightarrow> (string \<times> string) list" where
  "presentFiles env modPath =
     map (\<lambda>iter. (path_relative env modPath (filePath iter), fileMD5Async env (filePath iter)))
         (filter (\<lambda>iter. \<not> isDirectory iter) (turbowalk env modPath))"

text \<open>
  The guard \<^verbatim>\<open>rule.fileList?.length ?? 0 > 0\<close> parses as
  \<^verbatim>\<open>rule.fileList?.length ?? (0 > 0)\<close>: it is truthy exactly when the list is defined and
  not empty.
\<close>

definition hasFileList :: "'r IModRule \<Rightarrow> bool" where
  "hasFileList rule = (case fileList rule of None \<Rightarrow> False | Some fl \<Rightarrow> length fl \<noteq> 0)"

definition installerChoicesMatch :: "'r IModRule \<Rightarrow> 'r IMod \<Rightarrow> bool" where
  "installerChoicesMatch rule modByRef =
     (let modInstallerChoices =
            (case modInstallerChoices modByRef of None \<Rightarrow> EmptyObject | Some x \<Rightarrow> x);
          ruleInstallerChoices =
            (case installerChoices rule of None \<Rightarrow> EmptyObject | Some x \<Rightarrow> x)
      in ruleInstallerChoices = modInstallerChoices)"

text \<open>
  The \<^verbatim>\<open>for\<close> loop of \<^verbatim>\<open>startImpl\<close> over the rules of the collection. It either runs to
  the end with the list \<^verbatim>\<open>required\<close>, or leaves \<^verbatim>\<open>startImpl\<close> through the
  \<^verbatim>\<open>return !installerChoicesMatch\<close> of its last statement.
\<close>

datatype 'r loop_result = Fallthrough "'r IModRule list" | EarlyReturn bool

fun requiredLoop ::
  "'r Env \<Rightarrow> IProfile \<Rightarrow> (string \<times> 'r IMod) list \<Rightarrow> 'r IModRule list \<Rightarrow> 'r IModRule list
     \<Rightarrow> 'r loop_result" where
  "requiredLoop env profile mods [] required = Fallthrough required"
| "requiredLoop env profile mods (rule # rest) required =
     (if rtype rule \<noteq> ''requires'' then requiredLoop env profile mods rest required
      else
        (case findModByRef env (reference rule) mods of
           None \<Rightarrow> requiredLoop env profile mods rest (required @ [rule])
         | Some modByRef \<Rightarrow>
             if hasFileList rule
                \<and> Some (presentFiles env
                          (path_join env (installPathForGame env (gameId profile))
                             (installationPath modByRef))) \<noteq> fileList rule
             then requiredLoop env profile mods rest (required @ [rule])
             else EarlyReturn (\<not> installerChoicesMatch rule modByRef)))"

text \<open>
  The condition under which the body of the loop pushes a \<^verbatim>\<open>requires\<close> rule onto
  \<^verbatim>\<open>required\<close> and goes on: no package matches, or the manifest check fails.
\<close>

definition pushed :: "'r Env \<Rightarrow> IProfile \<Rightarrow> (string \<times> 'r IMod) list \<Rightarrow> 'r IModRule \<Rightarrow> bool" where
  "pushed env profile mods rule =
     (case findModByRef env (reference rule) mods of
        None \<Rightarrow> True
      | Some modByRef \<Rightarrow>
          hasFileList rule
          \<and> Some (presentFiles env
                    (path_join env (installPathForGame env (gameId profile))
                       (installationPath modByRef))) \<noteq> fileList rule)"

text \<open>
  \<^verbatim>\<open>startImpl\<close> from the event \<^verbatim>\<open>view-collection\<close> on (the part after the version check).
  The result is the value returned: \<open>None\<close> for \<^verbatim>\<open>undefined\<close>.
\<close>

definition startImpl_install ::
  "'r Env \<Rightarrow> IProfile \<Rightarrow> 'r IMod \<Rightarrow> (string \<times> 'r IMod) list \<Rightarrow> 'r Driver
     \<Rightarrow> bool option \<times> 'r Driver" where
  "startImpl_install env profile collection mods d =
     (let d1 = emit (EmitViewCollection (mod_id collection)) d;
          d2 = updateProgress env (Some profile) (Some collection) d1;
          d3 = emit (BatchDispatchAugmentRules (gameId profile) (mod_id collection)) d2;
          d4 = emit (DismissNotification (getUnfulfilledNotificationId env (mod_id collection))) d3;
          d5 = emit (DispatchSetModEnabled (prof_id profile) (mod_id collection) True) d4
      in case requiredLoop env profile mods
                (case rules collection of None \<Rightarrow> [] | Some rs \<Rightarrow> rs) [] of
           EarlyReturn b \<Rightarrow> (Some b, d5)
         | Fallthrough required \<Rightarrow>
             (None, d5\<lparr>mRequiredMods := required,
                       mInstallDone := (if length required = 0 then False else mInstallDone d5)\<rparr>))"

text \<open>The resolution of the revision metadata in \<^verbatim>\<open>startImpl\<close>; a failed fetch is logged only.\<close>

definition resolveRevisionInfo :: "'r Env \<Rightarrow> string \<Rightarrow> 'r Driver \<Rightarrow> 'r Driver" where
  "resolveRevisionInfo env aid d =
     (case revisionId env aid of
        None \<Rightarrow> d
      | Some rid \<Rightarrow>
          (case Option.bind (downloads env aid) nexus_revisionInfo of
             Some ri \<Rightarrow> d\<lparr>mRevisionInfo := Some ri\<rparr>
           | None \<Rightarrow>
               (case getRevisionInfo env rid (collectionSlug env aid) (revisionNumber env aid) of
                  Throws err \<Rightarrow> d
                | Returns r \<Rightarrow> d\<lparr>mRevisionInfo := r\<rparr>)))"

definition revGameVersions :: "'r Driver \<Rightarrow> string list" where
  "revGameVersions d =
     (case Option.bind (mRevisionInfo d) gameVersions of None \<Rightarrow> [] | Some gv \<Rightarrow> gv)"

text \<open>
  Whether the version dialog is shown, for the state with the revision metadata
  resolved: the guard \<^verbatim>\<open>revGameVersions.length ?? 0 !== 0\<close> is truthy exactly when the
  list is not empty.
\<close>

definition versionMismatch :: "'r Env \<Rightarrow> IProfile \<Rightarrow> 'r Driver \<Rightarrow> bool" where
  "versionMismatch env profile d =
     (length (revGameVersions d) \<noteq> 0
      \<and> find (\<lambda>gv. gv = getInstalledVersion env (gameId profile)) (revGameVersions d) = None)"

text \<open>
  The first part of \<^verbatim>\<open>startImpl\<close>, once the collection, its archive id and the profile
  are known to be set: the session fields are reset and the phase becomes \<^verbatim>\<open>start\<close>,
  the revision metadata is resolved, and the pending vote is registered unless the
  user is the author.
\<close>

definition startImpl_reset :: "'r Env \<Rightarrow> string \<Rightarrow> 'r Driver \<Rightarrow> 'r Driver" where
  "startImpl_reset env aid d =
     (let d1 = d\<lparr>mInstalledMods := [], mInstallingMod := None, mInstallDone := False,
                 mStep := Start\<rparr>;
          d2 = resolveRevisionInfo env aid d1
      in if Option.bind (Option.bind (mRevisionInfo d2) rev_collection) memberId \<noteq> userId env
         then emit (DispatchSetPendingVote (revisionId env aid)
                      (collectionSlug env aid) (revisionNumber env aid)) d2
         else d2)"

definition startImpl :: "'r Env \<Rightarrow> 'r Driver \<Rightarrow> bool option \<times> 'r Driver" where
  "startImpl env d =
     (case mCollection d of
        None \<Rightarrow> (Some False, d)
      | Some collection \<Rightarrow>
     (case archiveId collection of
        None \<Rightarrow> (Some False, d)
      | Some aid \<Rightarrow>
     (case mProfile d of
        None \<Rightarrow> (Some False, d)
      | Some profile \<Rightarrow>
          (let d3 = startImpl_reset env aid d;
               mods = (case mods_of env (gameId profile) of None \<Rightarrow> [] | Some m \<Rightarrow> m)
           in if versionMismatch env profile d3
              then (let d4 = emit (ShowDialog ''Different version'') d3
                    in if dialogAction env = ''Cancel''
                       then (Some False, d4\<lparr>mInstallDone := True\<rparr>)
                       else startImpl_install env profile collection mods d4)
              else startImpl_install env profile collection mods d3))))"

text \<open>
  \<^verbatim>\<open>startInstall\<close>: when the host offers \<^verbatim>\<open>withSuppressedTests\<close>, the callback handed to
  it registers the stop callback; then \<^verbatim>\<open>startImpl\<close> runs.
\<close>

definition startInstall :: "'r Env \<Rightarrow> 'r Driver \<Rightarrow> bool option \<times> 'r Driver" where
  "startInstall env d =
     startImpl env (if hasWithSuppressedTests env
                    then (emit WithSuppressedTests d)\<lparr>mOnStop := True\<rparr>
                    else d)"

text \<open>The other advance actions of \<^verbatim>\<open>continue\<close>.\<close>

definition begin_install :: "'r Driver \<Rightarrow> 'r Driver" where
  "begin_install d =
     (case mCollection d of
        None \<Rightarrow> d
      | Some c \<Rightarrow>
          (case mProfile d of
             None \<Rightarrow> d
           | Some p \<Rightarrow>
               (emit (EmitInstallDependencies (prof_id p) (gameId p) [mod_id c] True) d)
                 \<lparr>mStep := Installing\<rparr>))"

definition closeDisclaimers :: "'r Driver \<Rightarrow> 'r Driver" where
  "closeDisclaimers d = d\<lparr>mStep := Installing\<rparr>"

definition finishInstalling :: "'r Driver \<Rightarrow> 'r Driver" where
  "finishInstalling d = d\<lparr>mStep := Review\<rparr>"

definition close :: "'r Driver \<Rightarrow> 'r Driver" where
  "close d = triggerUpdate (d\<lparr>mCollection := None, mInstallDone := True\<rparr>)"

text \<open>
  The dispatch table of \<^verbatim>\<open>continue\<close>: the phases \<^verbatim>\<open>prepare\<close> and \<^verbatim>\<open>changelog\<close> have no
  entry, so nothing runs and the result is \<^verbatim>\<open>undefined\<close>.
\<close>

definition steps :: "'r Env \<Rightarrow> Step \<Rightarrow> 'r Driver \<Rightarrow> bool option \<times> 'r Driver" where
  "steps env s d =
     (case s of
        Query \<Rightarrow> startInstall env d
      | Start \<Rightarrow> (None, begin_install d)
      | Disclaimer \<Rightarrow> (None, closeDisclaimers d)
      | Installing \<Rightarrow> (None, finishInstalling d)
      | Recommendations \<Rightarrow> (None, finishInstalling d)
      | Review \<Rightarrow> (None, close d)
      | Prepare \<Rightarrow> (None, d)
      | Changelog \<Rightarrow> (None, d))"

definition continue :: "'r Env \<Rightarrow> 'r Driver \<Rightarrow> 'r Driver" where
  "continue env d =
     (if canContinue d \<and> Option.bind (mCollection d) archiveId \<noteq> None
      then (let d1 = initCollectionInfo env d;
                (res, d2) = steps env (mStep d1) d1
            in if res \<noteq> Some False then triggerUpdate d2 else d2)
      else d)"

text \<open>
  \<^verbatim>\<open>query\<close> and \<^verbatim>\<open>start\<close>. Both first wait for the pending-operation chain
  \<^verbatim>\<open>mPrepare\<close> and replace it by a resolved promise; the queued operations run on their
  own, so the model begins after the wait. The collection argument may be
  \<^verbatim>\<open>undefined\<close>.
\<close>

definition query :: "'r Env \<Rightarrow> IProfile option \<Rightarrow> 'r IMod option \<Rightarrow> 'r Driver \<Rightarrow> 'r Driver" where
  "query env profile collection d =
     (if Option.bind collection archiveId = None then d
      else if \<not> mInstallDone d \<and> mCollection d \<noteq> None
      then emit (SendWarning ''Already installing a collection'' None) d
      else triggerUpdate (initCollectionInfo env
             (d\<lparr>mProfile := profile, mCollection := collection, mStep := Query\<rparr>)))"

definition start :: "'r Env \<Rightarrow> IProfile option \<Rightarrow> 'r IMod option \<Rightarrow> 'r Driver \<Rightarrow> 'r Driver" where
  "start env profile collection d =
     (case collection of
        None \<Rightarrow> d
      | Some c \<Rightarrow>
          if archiveId c = None then d
          else if \<not> mInstallDone d \<and> mCollection d \<noteq> None
          then emit (SendWarning ''Already installing a collection'' (Some 5000)) d
          else (let d1 = d\<lparr>mProfile := profile, mCollection := Some c\<rparr>;
                    d2 = d1\<lparr>mTotalSize :=
                              Some (calculateCollectionSize env (getModsEx env d1 profile c))\<rparr>;
                    (res, d3) = startInstall env d2
                in triggerUpdate (initCollectionInfo env d3)))"

section \<open>The revision update workflow\<close>

text \<open>
  \<^verbatim>\<open>collectionUpdate\<close> of \<^verbatim>\<open>src/eventHandlers.ts\<close>. The outcome of each external call of
  one run is a field of the environment; \<open>modsBeforeInstall\<close> and \<open>modsAfterInstall\<close>
  are the package table of the game before and after the new revision is installed.
\<close>

record IDialogResult =
  action :: string
  input :: "(string \<times> bool) list option"

record 'r UpdateEnv =
  getNexusCollectionRevision :: "IRevision option outcome"
  resolveCollectionUrl :: "string list outcome"
  startDownload :: "string outcome"
  downloadFiles :: "(string \<times> IDownload) list"
  modsBeforeInstall :: "(string \<times> 'r IMod) list"
  startInstallDownload :: "string outcome"
  modsAfterInstall :: "(string \<times> 'r IMod) list"
  findModByRefU :: "'r \<Rightarrow> (string \<times> 'r IMod) list \<Rightarrow> 'r IMod option"
  testModReference :: "'r IMod \<Rightarrow> 'r \<Rightarrow> bool"
  removeOldDialog :: IDialogResult
  reviewDialog :: IDialogResult
  removeMods :: "unit outcome"

text \<open>
  An element of \<^verbatim>\<open>ops.keep\<close> and \<^verbatim>\<open>ops.remove\<close>: the source stores package objects on the
  "Keep All" and "Remove All" paths and package ids on the review path.
\<close>

datatype 'r removal = ModObject "'r IMod" | ModIdKey string

record 'r Ops =
  ops_remove :: "'r removal list"
  ops_keep :: "'r removal list"

datatype 'r update_effect =
    EmitStartDownload
  | EmitAnalyticsTrackClick string string
  | EmitStartInstallDownload string
  | ShowQuestionDialog string
  | BatchDispatchSetModAttribute string "'r removal list"
  | EmitRemoveMods string "'r removal list"
  | ShowErrorNotification string error

definition resolveRevision :: "'r UpdateEnv \<Rightarrow> string \<Rightarrow> error + (IRevision \<times> ICollection)" where
  "resolveRevision env cslug =
     (case getNexusCollectionRevision env of
        Throws e \<Rightarrow> Inl e
      | Returns None \<Rightarrow> Inl (Error ''Invalid revision'')
      | Returns (Some latest) \<Rightarrow>
          (case rev_collection latest of
             None \<Rightarrow> Inl (TypeError ''collection'')
           | Some collection \<Rightarrow>
               if cslug \<noteq> slug collection then Inl (Error ''Invalid collection'')
               else Inr (latest, collection)))"

text \<open>The inner \<^verbatim>\<open>try\<close>: an "already downloaded" failure is replaced by the existing download.\<close>

definition obtainDownload :: "'r UpdateEnv \<Rightarrow> error + string" where
  "obtainDownload env =
     (case startDownload env of
        Returns dlId \<Rightarrow> Inr dlId
      | Throws err \<Rightarrow>
          (case (case err of
                   AlreadyDownloaded fileName \<Rightarrow>
                     map_option fst
                       (find (\<lambda>kf. localPath (snd kf) = Some fileName) (downloadFiles env))
                 | _ \<Rightarrow> None) of
             None \<Rightarrow> Inl err
           | Some dlId \<Rightarrow> Inr dlId))"

definition isDependencyRule :: "'r IModRule \<Rightarrow> bool" where
  "isDependencyRule rule = (rtype rule = ''requires'' \<or> rtype rule = ''recommends'')"

definition candidates ::
  "('r \<Rightarrow> (string \<times> 'r IMod) list \<Rightarrow> 'r IMod option) \<Rightarrow> (string \<times> 'r IMod) list
     \<Rightarrow> 'r IModRule list \<Rightarrow> 'r IMod list" where
  "candidates fmr mods oldRules =
     filter (\<lambda>md. installedAsDependency md = Some True)
       (List.map_filter (\<lambda>rule. fmr (reference rule) mods) (filter isDependencyRule oldRules))"

text \<open>
  \<^verbatim>\<open>candidates.includes(mod)\<close> compares objects; the packages are the entries of one
  table, each carrying its id, so it is equality of the records.
\<close>

definition notCandidates ::
  "'r IMod list \<Rightarrow> string \<Rightarrow> string \<Rightarrow> (string \<times> 'r IMod) list \<Rightarrow> 'r IMod list" where
  "notCandidates cands oldModId newModId mods =
     filter (\<lambda>md. md \<notin> set cands \<and> mod_id md \<noteq> oldModId \<and> mod_id md \<noteq> newModId)
       (map snd mods)"

definition references ::
  "('r IMod \<Rightarrow> 'r \<Rightarrow> bool) \<Rightarrow> 'r IModRule list option \<Rightarrow> 'r IMod \<Rightarrow> bool" where
  "references tmr rs md =
     (find (\<lambda>rule. isDependencyRule rule \<and> tmr md (reference rule))
           (case rs of None \<Rightarrow> [] | Some l \<Rightarrow> l) \<noteq> None)"

definition obsolete ::
  "('r IMod \<Rightarrow> 'r \<Rightarrow> bool) \<Rightarrow> 'r IMod list \<Rightarrow> 'r IMod list \<Rightarrow> 'r IModRule list option
     \<Rightarrow> 'r IMod list" where
  "obsolete tmr cands notCands newRules =
     filter (\<lambda>md. find (\<lambda>other. references tmr (rules other) md) notCands = None)
       (filter (\<lambda>md. \<not> references tmr newRules md) cands)"

text \<open>
  The orphan computation of one run. The rules of the new package are read inside the
  first filter, so a missing new package throws only when there is a candidate.
\<close>

definition obsoleteMods ::
  "'r UpdateEnv \<Rightarrow> 'r IModRule list \<Rightarrow> string \<Rightarrow> string \<Rightarrow> error + 'r IMod list" where
  "obsoleteMods env oldRules oldModId newModId =
     (let mods = modsAfterInstall env;
          cands = candidates (findModByRefU env) mods oldRules;
          notCands = notCandidates cands oldModId newModId mods
      in if cands = [] then Inr []
         else (case map_of mods newModId of
                 None \<Rightarrow> Inl (TypeError ''rules'')
               | Some newMod \<Rightarrow>
                   Inr (obsolete (testModReference env) cands notCands (rules newMod))))"

text \<open>
  The words of the obsolete-package rule, stated without the lists of the code, to
  compare the code with. \<open>formerDependency\<close>: the package is what some \<^verbatim>\<open>requires\<close> or
  \<^verbatim>\<open>recommends\<close> rule of the old bundle resolves to, and it is flagged
  installed-as-dependency. \<open>referencedBy\<close>: some \<^verbatim>\<open>requires\<close> or \<^verbatim>\<open>recommends\<close> rule of the
  given rule set matches the package.
\<close>

definition formerDependency :: "'r UpdateEnv \<Rightarrow> 'r IModRule list \<Rightarrow> 'r IMod \<Rightarrow> bool" where
  "formerDependency env oldRules md =
     (installedAsDependency md = Some True
      \<and> (\<exists>rule \<in> set oldRules.
            (rtype rule = ''requires'' \<or> rtype rule = ''recommends'')
            \<and> findModByRefU env (reference rule) (modsAfterInstall env) = Some md))"

definition referencedBy ::
  "('r IMod \<Rightarrow> 'r \<Rightarrow> bool) \<Rightarrow> 'r IModRule list option \<Rightarrow> 'r IMod \<Rightarrow> bool" where
  "referencedBy tmr rs md =
     (\<exists>rule \<in> set (case rs of None \<Rightarrow> [] | Some l \<Rightarrow> l).
        (rtype rule = ''requires'' \<or> rtype rule = ''recommends'') \<and> tmr md (reference rule))"

text \<open>
  The dialogs. On the review path the source reads \<^verbatim>\<open>result.input\<close>, the input of the
  first dialog.
\<close>

definition decideOps ::
  "'r UpdateEnv \<Rightarrow> 'r IMod list \<Rightarrow> 'r update_effect list \<times> (error + 'r Ops)" where
  "decideOps env obs =
     (if length obs > 0
      then (let result = removeOldDialog env;
                ask = ShowQuestionDialog ''Remove mods from old revision?''
            in if action result = ''Keep All''
               then ([ask], Inr \<lparr>ops_remove = [], ops_keep = map ModObject obs\<rparr>)
               else if action result = ''Remove All''
               then ([ask], Inr \<lparr>ops_remove = map ModObject obs, ops_keep = []\<rparr>)
               else (let reviewResult = reviewDialog env
                     in if action reviewResult = ''Keep All''
                        then ([ask, ask], Inr \<lparr>ops_remove = [], ops_keep = map ModObject obs\<rparr>)
                        else (case input result of
                                None \<Rightarrow> ([ask, ask], Inl (TypeError ''input''))
                              | Some inp \<Rightarrow>
                                  ([ask, ask],
                                   Inr (foldl (\<lambda>prev kv.
                                          if snd kv
                                          then prev\<lparr>ops_remove := ops_remove prev @ [ModIdKey (fst kv)]\<rparr>
                                          else prev\<lparr>ops_keep := ops_keep prev @ [ModIdKey (fst kv)]\<rparr>)
                                        \<lparr>ops_remove = [], ops_keep = []\<rparr> inp)))))
      else ([], Inr \<lparr>ops_remove = [], ops_keep = []\<rparr>))"

text \<open>The body of the \<^verbatim>\<open>try\<close> block: what it sent, and the error it threw, if any.\<close>

definition collectionUpdateBody ::
  "'r UpdateEnv \<Rightarrow> string \<Rightarrow> string \<Rightarrow> string \<Rightarrow> 'r update_effect list \<times> (error + unit)" where
  "collectionUpdateBody env gid cslug oldModId =
     (case resolveRevision env cslug of
        Inl e \<Rightarrow> ([], Inl e)
      | Inr lc \<Rightarrow>
     (case resolveCollectionUrl env of
        Throws e \<Rightarrow> ([], Inl e)
      | Returns downloadURLs \<Rightarrow>
     (case obtainDownload env of
        Inl e \<Rightarrow> ([EmitStartDownload], Inl e)
      | Inr dlId \<Rightarrow>
     (let effs1 = [EmitStartDownload,
                   EmitAnalyticsTrackClick ''Collections'' ''Update Collection'']
      in case map_of (modsBeforeInstall env) oldModId of
        None \<Rightarrow> (effs1, Inl (TypeError ''rules''))
      | Some oldMod \<Rightarrow>
     (let oldRules = (case rules oldMod of None \<Rightarrow> [] | Some rs \<Rightarrow> rs);
          effs2 = effs1 @ [EmitStartInstallDownload dlId]
      in case startInstallDownload env of
        Throws e \<Rightarrow> (effs2, Inl e)
      | Returns newModId \<Rightarrow>
     (case obsoleteMods env oldRules oldModId newModId of
        Inl e \<Rightarrow> (effs2, Inl e)
      | Inr obs \<Rightarrow>
     (case decideOps env obs of
        (effs3, Inl e) \<Rightarrow> (effs2 @ effs3, Inl e)
      | (effs3, Inr ops) \<Rightarrow>
     (let effs4 = effs2 @ effs3
             @ [BatchDispatchSetModAttribute gid (ops_keep ops),
                EmitRemoveMods gid (ModIdKey oldModId # ops_remove ops)]
      in case removeMods env of
        Throws e \<Rightarrow> (effs4, Inl e)
      | Returns u \<Rightarrow> (effs4, Inr ())))))))))"

text \<open>
  \<^verbatim>\<open>collectionUpdate\<close>: the \<^verbatim>\<open>catch\<close> of the whole body. The function itself never
  throws, so its result is always \<open>Inr ()\<close>.
\<close>

definition collectionUpdate ::
  "'r UpdateEnv \<Rightarrow> string \<Rightarrow> string \<Rightarrow> string \<Rightarrow> 'r update_effect list \<times> (error + unit)" where
  "collectionUpdate env gid cslug oldModId =
     (case collectionUpdateBody env gid cslug oldModId of
        (effs, Inl err) \<Rightarrow>
          if err \<noteq> UserCanceled
          then (effs @ [ShowErrorNotification ''Failed to download collection'' err], Inr ())
          else (effs, Inr ())
      | (effs, Inr u) \<Rightarrow> (effs, Inr ()))"



fun isInstallDependencies :: "effect \<Rightarrow> bool" where
  "isInstallDependencies (EmitInstallDependencies pid gid ids rec) = True"
| "isInstallDependencies e = False"

text \<open>What an operation sent: the part of the trace after the trace it started with.\<close>

definition sent :: "'r Driver \<Rightarrow> 'r Driver \<Rightarrow> effect list" where
  "sent d d' = drop (length (effects d)) (effects d')"

section \<open>Example inputs\<close>

text \<open>
  A small world for the scenarios: references are package names, the matcher looks a
  name up in the package table, package A is installed under \<^verbatim>\<open>staging/A-dir\<close> with the
  one file \<^verbatim>\<open>a.txt\<close>, and bundle B has the rules requires A, requires C, recommends D.
\<close>

definition exProfile :: IProfile where
  "exProfile = \<lparr>prof_id = ''p1'', gameId = ''game''\<rparr>"

definition ruleA :: "string IModRule" where
  "ruleA = \<lparr>rtype = ''requires'', reference = ''A'',
            fileList = Some [(''a.txt'', ''h1'')], installerChoices = None\<rparr>"

definition ruleC :: "string IModRule" where
  "ruleC = \<lparr>rtype = ''requires'', reference = ''C'', fileList = None, installerChoices = None\<rparr>"

definition ruleD :: "string IModRule" where
  "ruleD = \<lparr>rtype = ''recommends'', reference = ''D'', fileList = None, installerChoices = None\<rparr>"

definition modA :: "string IMod" where
  "modA = \<lparr>mod_id = ''A'', state = Some ''installed'', archiveId = Some ''arch-A'',
           installationPath = ''A-dir'', fileSize = Some 10, modInstallerChoices = None,
           installedAsDependency = Some True, rules = None\<rparr>"

definition modB :: "string IMod" where
  "modB = \<lparr>mod_id = ''B'', state = Some ''installed'', archiveId = Some ''arch-B'',
           installationPath = ''B-dir'', fileSize = Some 1, modInstallerChoices = None,
           installedAsDependency = None, rules = Some [ruleA, ruleC, ruleD]\<rparr>"

definition exEnv :: "string Env" where
  "exEnv = \<lparr>
     mods_of = (\<lambda>g. if g = ''game'' then Some [(''A'', modA), (''B'', modB)] else None),
     downloads = (\<lambda>a. None),
     userId = None,
     findModByRef = (\<lambda>r mods. map_of mods r),
     modRuleId = reference,
     isRelevant = (\<lambda>m. rtype (collectionRule m) = ''requires''),
     calculateCollectionSize =
       (\<lambda>ms. sum_list (map (\<lambda>km. case Option.bind (exMod (snd km)) fileSize of
                                      None \<Rightarrow> 0 | Some n \<Rightarrow> n) ms)),
     getRevisionInfo = (\<lambda>rid sl n. Returns None),
     getCollectionInfo = (\<lambda>sl. None),
     getInstalledVersion = (\<lambda>g. ''1.0''),
     dialogAction = ''Cancel'',
     hasWithSuppressedTests = True,
     installPathForGame = (\<lambda>g. ''staging''),
     path_join = (\<lambda>a b. a @ ''/'' @ b),
     path_relative = (\<lambda>base f. drop (length base + 1) f),
     turbowalk = (\<lambda>dir. if dir = ''staging/A-dir''
                         then [\<lparr>filePath = ''staging/A-dir/a.txt'', isDirectory = False\<rparr>]
                         else []),
     fileMD5Async = (\<lambda>f. if f = ''staging/A-dir/a.txt'' then ''h1'' else ''h0''),
     renderModName = mod_id,
     INSTALLING_NOTIFICATION_ID = ''installing-'',
     getUnfulfilledNotificationId = (\<lambda>i. ''unfulfilled-'' @ i)\<rparr>"

text \<open>The driver as constructed, with one observer registered.\<close>

definition exIdle :: "string Driver" where
  "exIdle = \<lparr>mProfile = None, mCollection = None, mStep = Prepare, mUpdateHandlers = [0],
             mInstalledMods = [], mRequiredMods = [], mInstallingMod = None,
             mInstallDone = False, mCollectionInfo = None, mRevisionInfo = None,
             mTotalSize = None, mOnStop = False, effects = []\<rparr>"

text \<open>A session for bundle B in the middle of the install, and one under review.\<close>

definition exBusy :: "string Driver" where
  "exBusy = \<lparr>mProfile = Some exProfile, mCollection = Some modB, mStep = Installing,
             mUpdateHandlers = [0], mInstalledMods = [modA], mRequiredMods = [ruleC],
             mInstallingMod = Some ''c.7z'', mInstallDone = False, mCollectionInfo = None,
             mRevisionInfo = None, mTotalSize = Some 10, mOnStop = True, effects = []\<rparr>"

definition exReview :: "string Driver" where
  "exReview = exBusy\<lparr>mStep := Review, mInstallingMod := None\<rparr>"

text \<open>A bundle with no archive, a bundle with no rules, and a second bundle and profile.\<close>

definition modEmpty :: "string IMod" where
  "modEmpty = modB\<lparr>rules := None\<rparr>"

definition modNoArchive :: "string IMod" where
  "modNoArchive = modB\<lparr>archiveId := None\<rparr>"

definition modB2 :: "string IMod" where
  "modB2 = modB\<lparr>mod_id := ''B2'', archiveId := Some ''arch-B2'', rules := Some [ruleC]\<rparr>"

definition exProfile2 :: IProfile where
  "exProfile2 = \<lparr>prof_id = ''p2'', gameId = ''game''\<rparr>"

text \<open>
  The same world where the download of bundle B carries revision metadata made for
  game version 2.0, while version 1.0 is installed.
\<close>

definition exRevision :: IRevision where
  "exRevision = \<lparr>rev_id = 7, revision = 3, downloadLink = ''link'',
                 gameVersions = Some [''2.0''], rev_collection = None\<rparr>"

definition exDownloadB :: IDownload where
  "exDownloadB = \<lparr>received = Some 1, localPath = Some ''b.7z'',
      nexus_ids = Some \<lparr>collectionSlug_of = Some ''slug-b'', revisionId_of = Some ''7'',
                        revisionNumber_of = Some 3\<rparr>,
      modInfo_ids = None, nexus_revisionInfo = Some exRevision, nexus_collectionInfo = None\<rparr>"

definition exEnvMismatch :: "string Env" where
  "exEnvMismatch = exEnv\<lparr>downloads := (\<lambda>a. if a = ''arch-B'' then Some exDownloadB else None)\<rparr>"

text \<open>
  A rule for A with the matching manifest and an installer choice, where the installed
  A has no recorded choice; and a bundle with only that rule.
\<close>

definition ruleAChoice :: "string IModRule" where
  "ruleAChoice = ruleA\<lparr>installerChoices := Some (OptionSteps [''high-res''])\<rparr>"

definition modBChoice :: "string IMod" where
  "modBChoice = modB\<lparr>rules := Some [ruleAChoice]\<rparr>"

text \<open>
  The update scenario: the old bundle X requires Y, the new bundle N has no rules, Y
  was installed as a dependency, and Z is another installed package that requires Y.
\<close>

definition ruleY :: "string IModRule" where
  "ruleY = \<lparr>rtype = ''requires'', reference = ''Y'', fileList = None, installerChoices = None\<rparr>"

definition modX :: "string IMod" where
  "modX = modB\<lparr>mod_id := ''X'', rules := Some [ruleY]\<rparr>"

definition modN :: "string IMod" where
  "modN = modB\<lparr>mod_id := ''N'', rules := Some []\<rparr>"

definition modY :: "string IMod" where
  "modY = modA\<lparr>mod_id := ''Y''\<rparr>"

definition modZ :: "string IMod" where
  "modZ = modA\<lparr>mod_id := ''Z'', installedAsDependency := None, rules := Some [ruleY]\<rparr>"

definition exMatch :: "string IMod \<Rightarrow> string \<Rightarrow> bool" where
  "exMatch md r = (mod_id md = r)"

definition exLookup :: "string \<Rightarrow> (string \<times> string IMod) list \<Rightarrow> string IMod option" where
  "exLookup r mods = map_of mods r"

definition exUpdateEnv :: "string UpdateEnv" where
  "exUpdateEnv = \<lparr>
     getNexusCollectionRevision =
       Returns (Some (exRevision\<lparr>rev_collection :=
          Some \<lparr>col_id = 1, slug = ''slug-b'', col_name = Some ''Bundle'', memberId = None\<rparr>\<rparr>)),
     resolveCollectionUrl = Returns [''uri''],
     startDownload = Returns ''dl1'',
     downloadFiles = [],
     modsBeforeInstall = [(''X'', modX), (''Y'', modY)],
     startInstallDownload = Returns ''N'',
     modsAfterInstall = [(''X'', modX), (''Y'', modY), (''N'', modN)],
     findModByRefU = exLookup,
     testModReference = exMatch,
     removeOldDialog = \<lparr>action = ''Remove All'', input = None\<rparr>,
     reviewDialog = \<lparr>action = ''Keep All'', input = None\<rparr>,
     removeMods = Returns ()\<rparr>"

text \<open>
  Variants of the update scenario: with Z installed; with the user cancelling the
  install of the new revision; with the removal failing; and one where Z is itself a
  dependency of the old bundle that was installed as a dependency.
\<close>

definition exUpdateEnvZ :: "string UpdateEnv" where
  "exUpdateEnvZ = exUpdateEnv\<lparr>
     modsBeforeInstall := [(''X'', modX), (''Y'', modY), (''Z'', modZ)],
     modsAfterInstall := [(''X'', modX), (''Y'', modY), (''Z'', modZ), (''N'', modN)]\<rparr>"



definition ruleZ :: "string IModRule" where
  "ruleZ = ruleY\<lparr>reference := ''Z''\<rparr>"

definition modZdep :: "string IMod" where
  "modZdep = modZ\<lparr>installedAsDependency := Some True\<rparr>"

definition modXYZ :: "string IMod" where
  "modXYZ = modX\<lparr>rules := Some [ruleY, ruleZ]\<rparr>"

definition modNZ :: "string IMod" where
  "modNZ = modN\<lparr>rules := Some [ruleZ]\<rparr>"

text \<open>
  Here the old bundle X requires Y and Z, both installed as dependencies, Z requires
  Y, and the new bundle N still requires Z.
\<close>

definition exUpdateEnvZdep :: "string UpdateEnv" where
  "exUpdateEnvZdep = exUpdateEnv\<lparr>
     modsBeforeInstall := [(''X'', modXYZ), (''Y'', modY), (''Z'', modZdep)],
     modsAfterInstall :=
       [(''X'', modXYZ), (''Y'', modY), (''Z'', modZdep), (''N'', modNZ)]\<rparr>"

text \<open>
  The world of the install scenarios with one more installed package E of size 4, and
  a bundle S whose only rule requires E.
\<close>

definition modE :: "string IMod" where
  "modE = modA\<lparr>mod_id := ''E'', archiveId := Some ''arch-E'', installationPath := ''E-dir'',
               fileSize := Some 4\<rparr>"

definition ruleE :: "string IModRule" where
  "ruleE = ruleC\<lparr>reference := ''E''\<rparr>"

definition modS :: "string IMod" where
  "modS = modB\<lparr>mod_id := ''S'', archiveId := Some ''arch-S'', installationPath := ''S-dir'',
               rules := Some [ruleE]\<rparr>"

definition exEnvE :: "string Env" where
  "exEnvE = exEnv\<lparr>mods_of :=
     (\<lambda>g. if g = ''game''
          then Some [(''A'', modA), (''B'', modB), (''E'', modE), (''S'', modS)]
          else None)\<rparr>"

section \<open>Entry points without a bundle, and a second start\<close>

text \<open>
  Claim C10. \<^verbatim>\<open>query\<close> and \<^verbatim>\<open>start\<close> with a collection that is undefined or has no
  archive id return at once: the driver, its trace of notifications and signals
  included, is what it was.
\<close>

theorem query_start_without_archive_noop:
  assumes "Option.bind collection archiveId = None"
  shows "query env profile collection d = d \<and> start env profile collection d = d"
  using assms by (cases collection) (simp_all add: query_def start_def)

theorem query_start_without_archive_noop_witness:
  "Option.bind (Some modNoArchive) archiveId = None
    \<and> query exEnv (Some exProfile) (Some modNoArchive) exBusy = exBusy
    \<and> start exEnv (Some exProfile) (Some modNoArchive) exBusy = exBusy"
  using query_start_without_archive_noop[of "Some modNoArchive" exEnv "Some exProfile" exBusy]
  by (simp add: modNoArchive_def)

text \<open>
  Claim C2. While a session is active and not done, \<^verbatim>\<open>start\<close> for a second bundle is
  rejected: phase, collection, profile, installed list, required list, total size (and
  the installing marker and the done flag) keep their values, the only thing sent is at
  most the warning, and no \<^verbatim>\<open>install-dependencies\<close> signal is added to the trace.
\<close>

theorem start_rejected_while_active:
  assumes "mCollection d \<noteq> None" and "\<not> mInstallDone d"
  shows "mStep (start env profile2 bundle2 d) = mStep d
    \<and> mCollection (start env profile2 bundle2 d) = mCollection d
    \<and> mProfile (start env profile2 bundle2 d) = mProfile d
    \<and> mInstalledMods (start env profile2 bundle2 d) = mInstalledMods d
    \<and> mRequiredMods (start env profile2 bundle2 d) = mRequiredMods d
    \<and> mTotalSize (start env profile2 bundle2 d) = mTotalSize d
    \<and> mInstallingMod (start env profile2 bundle2 d) = mInstallingMod d
    \<and> mInstallDone (start env profile2 bundle2 d) = mInstallDone d
    \<and> (effects (start env profile2 bundle2 d) = effects d
        \<or> effects (start env profile2 bundle2 d)
            = effects d @ [SendWarning ''Already installing a collection'' (Some 5000)])
    \<and> filter isInstallDependencies (effects (start env profile2 bundle2 d))
        = filter isInstallDependencies (effects d)"
  using assms by (cases bundle2) (auto simp: start_def emit_def)

theorem start_rejected_while_active_witness:
  "mCollection exBusy \<noteq> None \<and> \<not> mInstallDone exBusy
    \<and> mStep (start exEnv (Some exProfile2) (Some modB2) exBusy) = Installing
    \<and> mCollection (start exEnv (Some exProfile2) (Some modB2) exBusy) = Some modB
    \<and> mProfile (start exEnv (Some exProfile2) (Some modB2) exBusy) = Some exProfile
    \<and> mRequiredMods (start exEnv (Some exProfile2) (Some modB2) exBusy) = [ruleC]
    \<and> filter isInstallDependencies
         (effects (start exEnv (Some exProfile2) (Some modB2) exBusy)) = []"
  using start_rejected_while_active[of exBusy exEnv "Some exProfile2" "Some modB2"]
  by (simp add: exBusy_def)

section \<open>Cancelling\<close>

text \<open>
  Claim C8, as amended. From every phase \<^verbatim>\<open>cancel\<close> dismisses the progress notification
  of the collection (when one is set), clears the collection, the profile and the
  installed list, puts the phase back to \<^verbatim>\<open>prepare\<close>, calls the stop callback if one is
  registered and then every observer. The required-rule list, the installing marker,
  the done flag and the total size keep their values.
\<close>

theorem cancel_clears_session:
  "mCollection (cancel env d) = None
    \<and> mProfile (cancel env d) = None
    \<and> mStep (cancel env d) = Prepare
    \<and> mInstalledMods (cancel env d) = []
    \<and> mRequiredMods (cancel env d) = mRequiredMods d
    \<and> mInstallingMod (cancel env d) = mInstallingMod d
    \<and> mInstallDone (cancel env d) = mInstallDone d
    \<and> mTotalSize (cancel env d) = mTotalSize d
    \<and> effects (cancel env d)
        = effects d
          @ (case mCollection d of
               None \<Rightarrow> []
             | Some c \<Rightarrow> [DismissNotification (INSTALLING_NOTIFICATION_ID env @ mod_id c)])
          @ (if mOnStop d then [OnStopCallback] else [])
          @ map UpdateCB (mUpdateHandlers d)"
  by (cases "mCollection d")
     (simp_all add: cancel_def onStop_def triggerUpdate_def emit_def Let_def)

text \<open>
  The claim as written fails: after \<^verbatim>\<open>cancel\<close> in the middle of an install the required
  list, the installing marker and the total size are still there, and a done flag that
  was set stays set.
\<close>

theorem cancel_keeps_fields_counterexample:
  "mRequiredMods (cancel exEnv exBusy) = [ruleC]
    \<and> mInstallingMod (cancel exEnv exBusy) = Some ''c.7z''
    \<and> mTotalSize (cancel exEnv exBusy) = Some 10
    \<and> mInstallDone (cancel exEnv (exBusy\<lparr>mInstallDone := True\<rparr>))"
  by code_simp

section \<open>Advancing\<close>

lemma continue_Review_step: "mStep d = Review \<Longrightarrow> mStep (continue env d) = Review"
  by (simp add: continue_def steps_def close_def triggerUpdate_def initCollectionInfo_def
      split: option.splits)

lemma continue_Review_iter: "mStep d = Review \<Longrightarrow> mStep ((continue env ^^ n) d) = Review"
  by (induction n) (simp_all add: continue_Review_step)

lemma continue_not_canContinue: "\<not> canContinue d \<Longrightarrow> continue env d = d"
  by (simp add: continue_def)

lemma continue_Review_close:
  assumes "mStep d = Review" and "Option.bind (mCollection d) archiveId \<noteq> None"
  shows "mInstallDone (continue env d) \<and> mCollection (continue env d) = None"
proof -
  from assms(2) obtain c aid where c: "mCollection d = Some c" "archiveId c = Some aid"
    by (cases "mCollection d") auto
  then have "canContinue d" using assms(1) by (simp add: canContinue_def)
  then show ?thesis using assms(1) c
    by (simp add: continue_def steps_def close_def triggerUpdate_def initCollectionInfo_def)
qed

lemma continue_idle: "mCollection d = None \<Longrightarrow> (continue env ^^ n) d = d"
  by (induction n) (simp_all add: continue_def canContinue_def)

text \<open>
  Claim C6, as amended. \<^verbatim>\<open>continue\<close> when \<^verbatim>\<open>canContinue\<close> is false changes nothing and
  sends nothing. From a state in the phase \<^verbatim>\<open>review\<close>, any number of calls of
  \<^verbatim>\<open>continue\<close> leaves the phase at \<^verbatim>\<open>review\<close>; when the collection has an archive id the
  first call clears the collection and sets the done flag, and every later call is a
  no-op.
\<close>

theorem continue_noop_and_review:
  "(\<not> canContinue d \<longrightarrow> continue env d = d)
    \<and> (mStep d = Review \<longrightarrow> mStep ((continue env ^^ n) d) = Review)
    \<and> (mStep d = Review \<and> Option.bind (mCollection d) archiveId \<noteq> None \<longrightarrow>
         mInstallDone (continue env d) \<and> mCollection (continue env d) = None
         \<and> (continue env ^^ Suc n) d = continue env d)"
proof (intro conjI impI)
  assume "\<not> canContinue d"
  then show "continue env d = d" by (rule continue_not_canContinue)
next
  assume "mStep d = Review"
  then show "mStep ((continue env ^^ n) d) = Review" by (rule continue_Review_iter)
next
  assume a: "mStep d = Review \<and> Option.bind (mCollection d) archiveId \<noteq> None"
  then show "mInstallDone (continue env d)" using continue_Review_close by blast
  from a show c: "mCollection (continue env d) = None" using continue_Review_close by blast
  have "(continue env ^^ Suc n) d = (continue env ^^ n) (continue env d)"
    by (simp add: funpow_swap1)
  then show "(continue env ^^ Suc n) d = continue env d" using continue_idle[OF c] by simp
qed

theorem continue_noop_and_review_witness:
  "\<not> canContinue exBusy \<and> continue exEnv exBusy = exBusy
    \<and> mStep exReview = Review \<and> Option.bind (mCollection exReview) archiveId \<noteq> None
    \<and> mStep ((continue exEnv ^^ 3) exReview) = Review
    \<and> mInstallDone (continue exEnv exReview) \<and> mCollection (continue exEnv exReview) = None
    \<and> (continue exEnv ^^ Suc 3) exReview = continue exEnv exReview"
proof -
  have a: "\<not> canContinue exBusy" by code_simp
  have b: "mStep exReview = Review \<and> Option.bind (mCollection exReview) archiveId \<noteq> None"
    by code_simp
  show ?thesis
    using a b continue_noop_and_review[of exBusy exEnv 3]
      continue_noop_and_review[of exReview exEnv 3]
    by blast
qed

text \<open>
  The claim as written fails: from a session under review, one, two or three calls of
  \<^verbatim>\<open>continue\<close> do not reach the phase \<^verbatim>\<open>prepare\<close>.
\<close>

theorem continue_review_counterexample:
  "mStep exReview = Review
    \<and> mStep (continue exEnv exReview) \<noteq> Prepare
    \<and> mStep (continue exEnv (continue exEnv exReview)) \<noteq> Prepare
    \<and> mStep (continue exEnv (continue exEnv (continue exEnv exReview))) \<noteq> Prepare"
  by code_simp

section \<open>The required rules\<close>

text \<open>
  What the loop computes: it runs to the end exactly when every \<^verbatim>\<open>requires\<close> rule is
  pushed, and then \<^verbatim>\<open>required\<close> holds all \<^verbatim>\<open>requires\<close> rules; otherwise it returns at the
  first \<^verbatim>\<open>requires\<close> rule that is not pushed, and the required list of the driver keeps
  the value it had.
\<close>

lemma requiredLoop_Fallthrough_value:
  "requiredLoop env p mods rs acc = Fallthrough req \<Longrightarrow>
   req = acc @ filter (\<lambda>rule. rtype rule = ''requires'') rs"
proof (induction rs arbitrary: acc)
  case Nil
  then show ?case by simp
next
  case (Cons rule rs)
  show ?case
  proof (cases "rtype rule = ''requires''")
    case False
    then show ?thesis using Cons by simp
  next
    case True
    with Cons.prems have "requiredLoop env p mods rs (acc @ [rule]) = Fallthrough req"
      by (simp split: option.splits if_splits)
    from Cons.IH[OF this] True show ?thesis by simp
  qed
qed

lemma requiredLoop_Fallthrough_iff:
  "(\<exists>req. requiredLoop env p mods rs acc = Fallthrough req) \<longleftrightarrow>
   (\<forall>rule \<in> set rs. rtype rule = ''requires'' \<longrightarrow> pushed env p mods rule)"
proof (induction rs arbitrary: acc)
  case Nil
  then show ?case by simp
next
  case (Cons rule rs)
  show ?case
  proof (cases "rtype rule = ''requires''")
    case False
    then show ?thesis using Cons.IH[of acc] by simp
  next
    case True
    show ?thesis
    proof (cases "pushed env p mods rule")
      case True
      with \<open>rtype rule = ''requires''\<close>
      have "requiredLoop env p mods (rule # rs) acc = requiredLoop env p mods rs (acc @ [rule])"
        by (simp add: pushed_def split: option.splits)
      then show ?thesis using Cons.IH[of "acc @ [rule]"] True by simp
    next
      case False
      with \<open>rtype rule = ''requires''\<close>
      have "\<exists>b. requiredLoop env p mods (rule # rs) acc = EarlyReturn b"
        by (auto simp: pushed_def split: option.splits)
      then show ?thesis using False \<open>rtype rule = ''requires''\<close> by auto
    qed
  qed
qed

lemma startImpl_install_required:
  "mRequiredMods (snd (startImpl_install env p c mods d))
     = (case requiredLoop env p mods (case rules c of None \<Rightarrow> [] | Some rs \<Rightarrow> rs) [] of
          EarlyReturn b \<Rightarrow> mRequiredMods d
        | Fallthrough req \<Rightarrow> req)"
  by (simp add: startImpl_install_def Let_def updateProgress_def emit_def
      split: loop_result.splits)

text \<open>
  Claim C1, at the scenario of the claim: bundle B with the rules requires A, requires
  C, recommends D, where A is installed with exactly the files of its manifest and C
  and D are not installed. The loop over the rules leaves \<^verbatim>\<open>startImpl\<close> at rule A, so
  the required list is never assigned: after \<^verbatim>\<open>start\<close> it is still empty, not the one
  rule for C. The phase is \<^verbatim>\<open>start\<close>, and \<^verbatim>\<open>continue\<close> then sends exactly one
  \<^verbatim>\<open>install-dependencies\<close> signal, for B.
\<close>

theorem start_scenario_required_not_computed:
  "requiredLoop exEnv exProfile [(''A'', modA), (''B'', modB)] [ruleA, ruleC, ruleD] []
      = EarlyReturn False
    \<and> mRequiredMods (start exEnv (Some exProfile) (Some modB) exIdle) = []
    \<and> mRequiredMods (start exEnv (Some exProfile) (Some modB) exIdle) \<noteq> [ruleC]
    \<and> mStep (start exEnv (Some exProfile) (Some modB) exIdle) = Start
    \<and> filter isInstallDependencies
         (effects (continue exEnv (start exEnv (Some exProfile) (Some modB) exIdle)))
        = [EmitInstallDependencies ''p1'' ''game'' [''B''] True]"
  by code_simp

text \<open>
  Claim C4, at a rule for A whose manifest equals the files of the installed A and whose
  installer choices differ from the recorded ones: \<^verbatim>\<open>startImpl\<close> returns \<^verbatim>\<open>true\<close> from
  inside the loop, and the rule is not in the required list.
\<close>

theorem installer_choice_mismatch_not_required:
  "presentFiles exEnv ''staging/A-dir'' = [(''a.txt'', ''h1'')]
    \<and> \<not> installerChoicesMatch ruleAChoice modA
    \<and> fst (startInstall exEnv
              (exIdle\<lparr>mProfile := Some exProfile, mCollection := Some modBChoice\<rparr>))
        = Some True
    \<and> mRequiredMods (start exEnv (Some exProfile) (Some modBChoice) exIdle) = []"
  by code_simp

section \<open>Progress values\<close>

lemma progressOf_finite:
  assumes "0 < t" "0 < n"
  shows "progressOf dl (Some t) i n = Finite ((real dl / real t + real i / real n) * 50)
    \<and> 0 \<le> (real dl / real t + real i / real n) * 50"
  using assms by (simp add: progressOf_def js_div_def)

lemma progressOf_unguarded:
  assumes "t = 0 \<or> n = 0"
  shows "progressOf dl (Some t) i n = NaN \<or> progressOf dl (Some t) i n = Infinity"
  using assms by (auto simp: progressOf_def js_div_def)

lemma progressOf_empty: "progressOf 0 (Some 0) 0 0 = NaN"
  by (simp add: progressOf_def js_div_def)

text \<open>
  \<^verbatim>\<open>updateProgress\<close>, the only caller of \<^verbatim>\<open>installProgress\<close>, leaves the total size
  defined, keeps a total size that was already there, and sends the progress computed
  with it.
\<close>

lemma emit_fields:
  "effects (emit e d) = effects d @ [e] \<and> mTotalSize (emit e d) = mTotalSize d"
  by (simp add: emit_def)

lemma installProgress_emit:
  "installProgress env (emit e d) profile c = installProgress env d profile c"
  by (cases profile) (simp_all add: installProgress_def getModsEx_def emit_def)

lemma updateProgress_totalSize:
  "(\<exists>t. mTotalSize (updateProgress env profile (Some c) d) = Some t)
    \<and> (mTotalSize d = Some t0 \<longrightarrow> mTotalSize (updateProgress env profile (Some c) d) = Some t0)
    \<and> effects (updateProgress env profile (Some c) d)
        = effects d @ [SendActivity (INSTALLING_NOTIFICATION_ID env @ mod_id c)
                         ''Installing Collection'' (renderModName env c)
                         (installProgress env (updateProgress env profile (Some c) d) profile c)]"
  by (cases "mTotalSize d")
     (simp_all add: updateProgress_def Let_def emit_fields installProgress_emit)

text \<open>
  Claim C3, as amended. \<^verbatim>\<open>installProgress\<close> divides without a guard and does not clamp.
  With a total size \<open>t\<close> and the entries \<open>ms\<close> of the collection: when \<open>t\<close> is positive and
  some entry is relevant, the result is the finite, non-negative number
  (download progress / \<open>t\<close> + installed / relevant) times 50, with no upper bound; when
  \<open>t\<close> is 0 or no entry is relevant the result is \<^verbatim>\<open>NaN\<close> or \<^verbatim>\<open>Infinity\<close>, and it is \<^verbatim>\<open>NaN\<close>
  for the session with no entries and total size 0.
\<close>

theorem installProgress_value:
  assumes "mTotalSize d = Some t"
    and "ms = map snd (getModsEx env d profile collection)"
  shows "(0 < t \<and> 0 < length (totalMods env ms)
          \<longrightarrow> installProgress env d profile collection
                = Finite ((real (downloadProgress env ms) / real t
                           + real (length (installedMods ms)) / real (length (totalMods env ms)))
                          * 50)
              \<and> 0 \<le> (real (downloadProgress env ms) / real t
                       + real (length (installedMods ms)) / real (length (totalMods env ms)))
                      * 50)
    \<and> (t = 0 \<or> length (totalMods env ms) = 0
          \<longrightarrow> installProgress env d profile collection = NaN
              \<or> installProgress env d profile collection = Infinity)
    \<and> (ms = [] \<and> t = 0 \<longrightarrow> installProgress env d profile collection = NaN)"
proof (intro conjI impI)
  assume "0 < t \<and> 0 < length (totalMods env ms)"
  then have "0 < t" "0 < length (totalMods env ms)" by simp_all
  from progressOf_finite[OF this] assms
  show "installProgress env d profile collection
          = Finite ((real (downloadProgress env ms) / real t
                     + real (length (installedMods ms)) / real (length (totalMods env ms)))
                    * 50)"
    and "0 \<le> (real (downloadProgress env ms) / real t
               + real (length (installedMods ms)) / real (length (totalMods env ms)))
              * 50"
    by (simp_all add: installProgress_def Let_def)
next
  assume "t = 0 \<or> length (totalMods env ms) = 0"
  from progressOf_unguarded[OF this] assms
  show "installProgress env d profile collection = NaN
      \<or> installProgress env d profile collection = Infinity"
    by (simp add: installProgress_def Let_def)
next
  assume "ms = [] \<and> t = 0"
  then show "installProgress env d profile collection = NaN"
    using assms progressOf_empty
    by (simp add: installProgress_def Let_def downloadProgress_def installedMods_def
        totalMods_def)
qed

theorem installProgress_value_witness:
  "mTotalSize exBusy = Some 10
    \<and> 0 < length (totalMods exEnv (map snd (getModsEx exEnv exBusy (Some exProfile) modB)))
    \<and> downloadProgress exEnv (map snd (getModsEx exEnv exBusy (Some exProfile) modB)) = 10
    \<and> length (installedMods (map snd (getModsEx exEnv exBusy (Some exProfile) modB))) = 1
    \<and> length (totalMods exEnv (map snd (getModsEx exEnv exBusy (Some exProfile) modB))) = 2
    \<and> installProgress exEnv exBusy (Some exProfile) modB = Finite 75
    \<and> mTotalSize (exIdle\<lparr>mTotalSize := Some 0\<rparr>) = Some 0
    \<and> map snd (getModsEx exEnv (exIdle\<lparr>mTotalSize := Some 0\<rparr>) (Some exProfile) modEmpty) = []
    \<and> installProgress exEnv (exIdle\<lparr>mTotalSize := Some 0\<rparr>) (Some exProfile) modEmpty = NaN"
proof -
  have a: "mTotalSize exBusy = Some 10" by code_simp
  have b: "downloadProgress exEnv (map snd (getModsEx exEnv exBusy (Some exProfile) modB)) = 10"
    by code_simp
  have c: "length (installedMods (map snd (getModsEx exEnv exBusy (Some exProfile) modB))) = 1"
    by code_simp
  have e: "length (totalMods exEnv (map snd (getModsEx exEnv exBusy (Some exProfile) modB))) = 2"
    by code_simp
  have f: "mTotalSize (exIdle\<lparr>mTotalSize := Some 0\<rparr>) = Some 0" by simp
  have g: "map snd (getModsEx exEnv (exIdle\<lparr>mTotalSize := Some 0\<rparr>) (Some exProfile) modEmpty) = []"
    by code_simp
  from installProgress_value[OF a refl, of exEnv "Some exProfile" modB] b c e
  have h: "installProgress exEnv exBusy (Some exProfile) modB = Finite 75"
    by simp
  from installProgress_value[OF f refl, of exEnv "Some exProfile" modEmpty] g
  have i: "installProgress exEnv (exIdle\<lparr>mTotalSize := Some 0\<rparr>) (Some exProfile) modEmpty = NaN"
    by simp
  from a b c e f g h i show ?thesis by simp
qed

text \<open>
  The claim as written fails twice. For a bundle with no rules the total size is 0 and
  no entry is relevant: the progress is \<^verbatim>\<open>NaN\<close>, not 0, and \<^verbatim>\<open>start\<close> sends it in the
  progress notification. And the total size of a cancelled session is kept: after
  \<^verbatim>\<open>start\<close> for bundle S (total size 4), \<^verbatim>\<open>cancel\<close>, \<^verbatim>\<open>query\<close> for bundle B and \<^verbatim>\<open>continue\<close>,
  the progress sent for B is 150.
\<close>

theorem installProgress_range_counterexample:
  "installProgress exEnv (exIdle\<lparr>mTotalSize := Some 0\<rparr>) (Some exProfile) modEmpty = NaN
    \<and> mTotalSize (start exEnv (Some exProfile) (Some modEmpty) exIdle) = Some 0
    \<and> SendActivity ''installing-B'' ''Installing Collection'' ''B'' NaN
        \<in> set (effects (start exEnv (Some exProfile) (Some modEmpty) exIdle))
    \<and> mTotalSize (cancel exEnvE (start exEnvE (Some exProfile) (Some modS) exIdle)) = Some 4
    \<and> SendActivity ''installing-B'' ''Installing Collection'' ''B'' (Finite 150)
        \<in> set (effects
                 (continue exEnvE
                   (query exEnvE (Some exProfile) (Some modB)
                     (cancel exEnvE (start exEnvE (Some exProfile) (Some modS) exIdle)))))"
  by code_simp

section \<open>Obsolete packages\<close>

lemma set_map_filter_Some:
  "set (List.map_filter f xs) = {y. \<exists>x \<in> set xs. f x = Some y}"
  by (induction xs) (auto split: option.splits)

lemma candidates_iff:
  "Y \<in> set (candidates (findModByRefU env) (modsAfterInstall env) oldRules)
     \<longleftrightarrow> formerDependency env oldRules Y"
  by (auto simp: candidates_def set_map_filter_Some formerDependency_def isDependencyRule_def)

lemma references_iff: "references tmr rs Y \<longleftrightarrow> referencedBy tmr rs Y"
  by (auto simp: references_def referencedBy_def isDependencyRule_def find_None_iff)

lemma obsolete_member:
  "Y \<in> set (obsolete tmr cands notCands newRules) \<longleftrightarrow>
     Y \<in> set cands \<and> \<not> references tmr newRules Y
     \<and> \<not> (\<exists>Z \<in> set notCands. references tmr (rules Z) Y)"
  by (auto simp: obsolete_def find_None_iff)

lemma notCandidates_member:
  "Z \<in> set (notCandidates cands oldModId newModId mods) \<longleftrightarrow>
     Z \<in> snd ` set mods \<and> Z \<notin> set cands \<and> mod_id Z \<noteq> oldModId \<and> mod_id Z \<noteq> newModId"
  by (auto simp: notCandidates_def)

text \<open>
  Claim C7, as amended. Let Y be a former dependency of the old bundle flagged
  installed-as-dependency, and let the new bundle package be installed. Then the orphan
  computation succeeds, and Y is in the obsolete list exactly when the rules of the new
  bundle do not reference Y and no installed package Z that is neither such a former
  dependency nor the old or new bundle package references Y. In particular an
  installed Z that references Y keeps Y out of the list when Z is distinct from the old
  and new bundle packages and is not itself such a former dependency.
\<close>

theorem obsolete_iff:
  assumes "formerDependency env oldRules Y"
    and "map_of (modsAfterInstall env) newModId = Some newMod"
  shows "\<exists>obs. obsoleteMods env oldRules oldModId newModId = Inr obs
    \<and> (Y \<in> set obs \<longleftrightarrow>
          \<not> referencedBy (testModReference env) (rules newMod) Y
          \<and> \<not> (\<exists>Z \<in> snd ` set (modsAfterInstall env).
                  \<not> formerDependency env oldRules Z
                  \<and> mod_id Z \<noteq> oldModId \<and> mod_id Z \<noteq> newModId
                  \<and> referencedBy (testModReference env) (rules Z) Y))
    \<and> (\<forall>Z. Z \<in> snd ` set (modsAfterInstall env)
            \<and> \<not> formerDependency env oldRules Z
            \<and> mod_id Z \<noteq> oldModId \<and> mod_id Z \<noteq> newModId
            \<and> referencedBy (testModReference env) (rules Z) Y
          \<longrightarrow> Y \<notin> set obs)"
proof -
  let ?cands = "candidates (findModByRefU env) (modsAfterInstall env) oldRules"
  let ?nc = "notCandidates ?cands oldModId newModId (modsAfterInstall env)"
  let ?obs = "obsolete (testModReference env) ?cands ?nc (rules newMod)"
  have Y: "Y \<in> set ?cands" using assms(1) by (simp add: candidates_iff)
  then have ne: "?cands \<noteq> []" by auto
  have eq: "obsoleteMods env oldRules oldModId newModId = Inr ?obs"
    using ne assms(2) by (simp add: obsoleteMods_def Let_def)
  have m: "Y \<in> set ?obs \<longleftrightarrow>
      \<not> referencedBy (testModReference env) (rules newMod) Y
      \<and> \<not> (\<exists>Z \<in> snd ` set (modsAfterInstall env).
              \<not> formerDependency env oldRules Z \<and> mod_id Z \<noteq> oldModId \<and> mod_id Z \<noteq> newModId
              \<and> referencedBy (testModReference env) (rules Z) Y)"
    unfolding obsolete_member Bex_def notCandidates_member candidates_iff references_iff
    using Y[unfolded candidates_iff] by blast
  from m have p: "\<forall>Z. Z \<in> snd ` set (modsAfterInstall env) \<and> \<not> formerDependency env oldRules Z
        \<and> mod_id Z \<noteq> oldModId \<and> mod_id Z \<noteq> newModId
        \<and> referencedBy (testModReference env) (rules Z) Y \<longrightarrow> Y \<notin> set ?obs"
    by blast
  from eq m p show ?thesis by blast
qed

theorem obsolete_iff_witness:
  "formerDependency exUpdateEnv [ruleY] modY
    \<and> formerDependency exUpdateEnvZ [ruleY] modY
    \<and> map_of (modsAfterInstall exUpdateEnv) ''N'' = Some modN
    \<and> map_of (modsAfterInstall exUpdateEnvZ) ''N'' = Some modN
    \<and> obsoleteMods exUpdateEnv [ruleY] ''X'' ''N'' = Inr [modY]
    \<and> modZ \<in> snd ` set (modsAfterInstall exUpdateEnvZ)
    \<and> \<not> formerDependency exUpdateEnvZ [ruleY] modZ
    \<and> referencedBy (testModReference exUpdateEnvZ) (rules modZ) modY
    \<and> (\<exists>obs. obsoleteMods exUpdateEnvZ [ruleY] ''X'' ''N'' = Inr obs \<and> modY \<notin> set obs)"
proof -
  have a: "formerDependency exUpdateEnv [ruleY] modY" "formerDependency exUpdateEnvZ [ruleY] modY"
    by code_simp+
  have e: "map_of (modsAfterInstall exUpdateEnv) ''N'' = Some modN"
    "map_of (modsAfterInstall exUpdateEnvZ) ''N'' = Some modN"
    by code_simp+
  have f: "obsoleteMods exUpdateEnv [ruleY] ''X'' ''N'' = Inr [modY]" by code_simp
  have g: "modZ \<in> snd ` set (modsAfterInstall exUpdateEnvZ)
      \<and> \<not> formerDependency exUpdateEnvZ [ruleY] modZ
      \<and> mod_id modZ \<noteq> ''X'' \<and> mod_id modZ \<noteq> ''N''
      \<and> referencedBy (testModReference exUpdateEnvZ) (rules modZ) modY"
    by code_simp
  from obsolete_iff[OF a(2) e(2), of "''X''"] g
  have h: "\<exists>obs. obsoleteMods exUpdateEnvZ [ruleY] ''X'' ''N'' = Inr obs \<and> modY \<notin> set obs"
    by blast
  from a e f g h show ?thesis by blast
qed

text \<open>
  The claim as written fails in its last clause: the old bundle X requires Y and Z,
  both installed as dependencies, Z requires Y, and the new bundle N requires Z only.
  Z is installed, is neither X nor N, and references Y; yet Y is the obsolete list, and
  with the answer "Remove All" the workflow removes X and Y.
\<close>

theorem obsolete_candidate_reference_counterexample:
  "rules modXYZ = Some [ruleY, ruleZ]
    \<and> formerDependency exUpdateEnvZdep [ruleY, ruleZ] modY
    \<and> map_of (modsAfterInstall exUpdateEnvZdep) ''Z'' = Some modZdep
    \<and> mod_id modZdep \<noteq> ''X'' \<and> mod_id modZdep \<noteq> ''N''
    \<and> referencedBy (testModReference exUpdateEnvZdep) (rules modZdep) modY
    \<and> obsoleteMods exUpdateEnvZdep [ruleY, ruleZ] ''X'' ''N'' = Inr [modY]
    \<and> EmitRemoveMods ''game'' [ModIdKey ''X'', ModObject modY]
        \<in> set (fst (collectionUpdate exUpdateEnvZdep ''game'' ''slug-b'' ''X''))"
  by code_simp

section \<open>Failures of the update workflow\<close>





section \<open>The version dialog\<close>

lemma resolveRevisionInfo_effects: "effects (resolveRevisionInfo env aid d) = effects d"
  by (simp add: resolveRevisionInfo_def split: option.splits outcome.splits)

lemma resolveRevisionInfo_fields:
  "mStep (resolveRevisionInfo env aid d) = mStep d
    \<and> mCollection (resolveRevisionInfo env aid d) = mCollection d
    \<and> mInstallDone (resolveRevisionInfo env aid d) = mInstallDone d"
  by (simp add: resolveRevisionInfo_def split: option.splits outcome.splits)

lemma startImpl_reset_fields:
  "mStep (startImpl_reset env aid d) = Start
    \<and> mCollection (startImpl_reset env aid d) = mCollection d
    \<and> (effects (startImpl_reset env aid d) = effects d
        \<or> effects (startImpl_reset env aid d)
            = effects d @ [DispatchSetPendingVote (revisionId env aid)
                             (collectionSlug env aid) (revisionNumber env aid)])"
  by (simp add: startImpl_reset_def Let_def emit_def resolveRevisionInfo_effects
      resolveRevisionInfo_fields)

lemma startImpl_install_effects:
  "effects (snd (startImpl_install env p c mods d))
     = effects d @ [EmitViewCollection (mod_id c),
         SendActivity (INSTALLING_NOTIFICATION_ID env @ mod_id c) ''Installing Collection''
           (renderModName env c)
           (installProgress env (snd (startImpl_install env p c mods d)) (Some p) c),
         BatchDispatchAugmentRules (gameId p) (mod_id c),
         DismissNotification (getUnfulfilledNotificationId env (mod_id c)),
         DispatchSetModEnabled (prof_id p) (mod_id c) True]"
  by (simp add: startImpl_install_def Let_def updateProgress_def emit_def installProgress_def
      getModsEx_def split: loop_result.splits)

lemma startImpl_install_no_dialog:
  "effects d = pre @ xs \<Longrightarrow> ShowDialog s \<notin> set xs \<Longrightarrow>
   ShowDialog s \<notin> set (drop (length pre) (effects (snd (startImpl_install env p c mods d))))"
  by (simp add: startImpl_install_effects)

text \<open>
  \<^verbatim>\<open>startImpl\<close> on the path where the dialog is answered with Cancel; no other path
  shows the dialog.
\<close>

lemma startImpl_dialog_cancel:
  assumes pre: "effects d = pre @ xs" "ShowDialog ''Different version'' \<notin> set xs"
      "filter isInstallDependencies xs = []"
    and shown: "ShowDialog ''Different version''
                  \<in> set (drop (length pre) (effects (snd (startImpl env d))))"
    and cancel: "dialogAction env = ''Cancel''"
  shows "fst (startImpl env d) = Some False
    \<and> mInstallDone (snd (startImpl env d))
    \<and> mStep (snd (startImpl env d)) = Start
    \<and> mCollection (snd (startImpl env d)) = mCollection d
    \<and> mCollection d \<noteq> None
    \<and> filter isInstallDependencies (drop (length pre) (effects (snd (startImpl env d)))) = []"
proof (cases "mCollection d")
  case None
  then show ?thesis using pre shown by (simp add: startImpl_def)
next
  case (Some c)
  note c = this
  show ?thesis
  proof (cases "archiveId c")
    case None
    then show ?thesis using c pre shown by (simp add: startImpl_def)
  next
    case (Some aid)
    note aid = this
    show ?thesis
    proof (cases "mProfile d")
      case None
      then show ?thesis using c aid pre shown by (simp add: startImpl_def)
    next
      case (Some p)
      let ?d3 = "startImpl_reset env aid d"
      from startImpl_reset_fields[of env aid d] pre
      obtain ys where ys: "effects ?d3 = pre @ ys" "ShowDialog ''Different version'' \<notin> set ys"
        "filter isInstallDependencies ys = []"
        by auto
      have f: "mStep ?d3 = Start" "mCollection ?d3 = mCollection d"
        using startImpl_reset_fields[of env aid d] by simp_all
      show ?thesis
      proof (cases "versionMismatch env p ?d3")
        case True
        then show ?thesis using c aid Some cancel ys f
          by (simp add: startImpl_def Let_def emit_def)
      next
        case False
        then have "startImpl env d
            = startImpl_install env p c
                (case mods_of env (gameId p) of None \<Rightarrow> [] | Some m \<Rightarrow> m) ?d3"
          using c aid Some by (simp add: startImpl_def Let_def)
        then show ?thesis
          using shown startImpl_install_no_dialog[OF ys(1) ys(2)] by simp
      qed
    qed
  qed
qed

text \<open>
  Claim C5, as amended. Whenever \<^verbatim>\<open>startInstall\<close> shows the version dialog and the user
  chooses Cancel, \<^verbatim>\<open>startInstall\<close> returns \<^verbatim>\<open>false\<close> with the done flag set and the phase
  \<^verbatim>\<open>start\<close>; the collection stays set, so the session can still be continued; and
  \<^verbatim>\<open>startInstall\<close> itself sends no \<^verbatim>\<open>install-dependencies\<close> signal.
\<close>

theorem version_mismatch_cancel:
  assumes "ShowDialog ''Different version'' \<in> set (sent d (snd (startInstall env d)))"
    and "dialogAction env = ''Cancel''"
  shows "fst (startInstall env d) = Some False
    \<and> mInstallDone (snd (startInstall env d))
    \<and> mStep (snd (startInstall env d)) = Start
    \<and> mCollection (snd (startInstall env d)) = mCollection d
    \<and> canContinue (snd (startInstall env d))
    \<and> filter isInstallDependencies (sent d (snd (startInstall env d))) = []"
proof -
  let ?d0 = "if hasWithSuppressedTests env
             then (emit WithSuppressedTests d)\<lparr>mOnStop := True\<rparr> else d"
  have e: "startInstall env d = startImpl env ?d0" by (simp add: startInstall_def)
  obtain xs where xs: "effects ?d0 = effects d @ xs" "ShowDialog ''Different version'' \<notin> set xs"
    "filter isInstallDependencies xs = []"
    by (cases "hasWithSuppressedTests env") (simp_all add: emit_def)
  have m: "mCollection ?d0 = mCollection d" by (simp add: emit_def)
  have shown: "ShowDialog ''Different version''
      \<in> set (drop (length (effects d)) (effects (snd (startImpl env ?d0))))"
    using assms(1) unfolding e sent_def .
  from startImpl_dialog_cancel[OF xs shown assms(2)] m
  show ?thesis unfolding e sent_def by (simp add: canContinue_def)
qed

theorem version_mismatch_cancel_witness:
  "ShowDialog ''Different version''
      \<in> set (sent (exIdle\<lparr>mProfile := Some exProfile, mCollection := Some modB\<rparr>)
              (snd (startInstall exEnvMismatch
                      (exIdle\<lparr>mProfile := Some exProfile, mCollection := Some modB\<rparr>))))
    \<and> dialogAction exEnvMismatch = ''Cancel''
    \<and> mInstallDone (snd (startInstall exEnvMismatch
                      (exIdle\<lparr>mProfile := Some exProfile, mCollection := Some modB\<rparr>)))
    \<and> mStep (snd (startInstall exEnvMismatch
                      (exIdle\<lparr>mProfile := Some exProfile, mCollection := Some modB\<rparr>))) = Start"
proof -
  have a: "ShowDialog ''Different version''
      \<in> set (sent (exIdle\<lparr>mProfile := Some exProfile, mCollection := Some modB\<rparr>)
              (snd (startInstall exEnvMismatch
                      (exIdle\<lparr>mProfile := Some exProfile, mCollection := Some modB\<rparr>))))"
    by code_simp
  have b: "dialogAction exEnvMismatch = ''Cancel''" by code_simp
  from version_mismatch_cancel[OF a b] a b show ?thesis by blast
qed

text \<open>
  The claim as written fails: after \<^verbatim>\<open>start\<close> with the dialog answered Cancel the phase
  is \<^verbatim>\<open>start\<close>, not \<^verbatim>\<open>prepare\<close>, and a following \<^verbatim>\<open>continue\<close> sends the
  \<^verbatim>\<open>install-dependencies\<close> signal for the bundle.
\<close>

theorem version_mismatch_cancel_counterexample:
  "ShowDialog ''Different version''
      \<in> set (effects (start exEnvMismatch (Some exProfile) (Some modB) exIdle))
    \<and> dialogAction exEnvMismatch = ''Cancel''
    \<and> mInstallDone (start exEnvMismatch (Some exProfile) (Some modB) exIdle)
    \<and> mStep (start exEnvMismatch (Some exProfile) (Some modB) exIdle) = Start
    \<and> mStep (start exEnvMismatch (Some exProfile) (Some modB) exIdle) \<noteq> Prepare
    \<and> filter isInstallDependencies
        (effects (continue exEnvMismatch
                   (start exEnvMismatch (Some exProfile) (Some modB) exIdle)))
       = [EmitInstallDependencies ''p1'' ''game'' [''B''] True]"
  by code_simp

end
